theory Spec2Isabelle
  imports Main "HOL-Library.Word"
begin

section \<open>Data model\<close>

text \<open>
  The Go structs of \<^verbatim>\<open>component_resources.go\<close> as records. Only the fields the
  builders set are modelled (every other field keeps Go's zero value). A pointer field is
  an \<open>option\<close>; a struct that embeds another one extends its record, so that
  \<open>Name cr\<close> reads \<^verbatim>\<open>cr.Name\<close> as in the source. A field name used by several
  structs carries the struct's name as a prefix.
\<close>

type_synonym int32 = "32 word"

record ObjectMeta =
  Name :: string
  Namespace :: string
  Labels :: "string \<rightharpoonup> string"

record ComponentSpec =
  BuildType :: string
  Codebase :: string

record Component = ObjectMeta +
  Spec :: ComponentSpec

record ObjectReference =
  Kind :: string
  ObjectReference_Namespace :: string
  ObjectReference_Name :: string

subsection \<open>Image streams\<close>

record TagReference =
  TagReference_Name :: string
  TagReference_From :: "ObjectReference option"

record ImageLookupPolicy =
  Local :: bool

record ImageStreamSpec =
  LookupPolicy :: ImageLookupPolicy
  Tags :: "TagReference list"

record ImageStream = ObjectMeta +
  ImageStream_Spec :: ImageStreamSpec

subsection \<open>Build configurations\<close>

datatype BuildSourceType = BuildSourceGit | BuildSourceDockerfile | BuildSourceBinary

record GitBuildSource =
  URI :: string
  Ref :: string

record BuildSource =
  BuildSource_Type :: BuildSourceType
  Git :: "GitBuildSource option"

record BuildOutput =
  To :: "ObjectReference option"

record SourceBuildStrategy =
  SourceBuildStrategy_From :: ObjectReference
  Incremental :: "bool option"

record BuildStrategy =
  SourceStrategy :: "SourceBuildStrategy option"

record ImageChangeTrigger =
  LastTriggeredImageID :: string
  ImageChangeTrigger_From :: "ObjectReference option"

record BuildTriggerPolicy =
  BuildTriggerPolicy_Type :: string
  ImageChange :: "ImageChangeTrigger option"

record CommonSpec =
  Source :: BuildSource
  Strategy :: BuildStrategy
  Output :: BuildOutput

record BuildConfigSpec = CommonSpec +
  BuildConfigSpec_Triggers :: "BuildTriggerPolicy list"

record BuildConfig = ObjectMeta +
  BuildConfig_Spec :: BuildConfigSpec

subsection \<open>Deployment configurations\<close>

datatype DeploymentStrategyType =
  DeploymentStrategyTypeRecreate | DeploymentStrategyTypeCustom | DeploymentStrategyTypeRolling

datatype DeploymentTriggerType =
  DeploymentTriggerOnConfigChange | DeploymentTriggerOnImageChange

datatype Protocol = ProtocolTCP | ProtocolUDP

record DeploymentStrategy =
  DeploymentStrategy_Type :: DeploymentStrategyType

record ContainerPort =
  ContainerPort_ContainerPort :: int32
  ContainerPort_Protocol :: Protocol

record Container =
  Container_Name :: string
  Image :: string
  Ports :: "ContainerPort list"

record PodSpec =
  Containers :: "Container list"

record PodTemplateSpec = ObjectMeta +
  PodTemplateSpec_Spec :: PodSpec

record DeploymentTriggerImageChangeParams =
  Automatic :: bool
  ContainerNames :: "string list"
  ImageChangeParams_From :: ObjectReference

record DeploymentTriggerPolicy =
  DeploymentTriggerPolicy_Type :: DeploymentTriggerType
  ImageChangeParams :: "DeploymentTriggerImageChangeParams option"

record DeploymentConfigSpec =
  DeploymentConfigSpec_Strategy :: DeploymentStrategy
  Replicas :: int32
  Selector :: "string \<rightharpoonup> string"
  Template :: "PodTemplateSpec option"
  DeploymentConfigSpec_Triggers :: "DeploymentTriggerPolicy list"

record DeploymentConfig = ObjectMeta +
  DeploymentConfig_Spec :: DeploymentConfigSpec

section \<open>Resource template builders\<close>

text \<open>
  Modelled from the spec: \<^verbatim>\<open>resource.GetLabelsForCR\<close> lives in package
  \<^verbatim>\<open>pkg/resource\<close>, which is not among the sources. The spec says that every
  derived resource carries the single label \<open>app=<Component.name>\<close>, and the
  controller test reads back one label, \<open>app\<close>, holding the Component's name.
\<close>

definition GetLabelsForCR :: "Component \<Rightarrow> (string \<rightharpoonup> string)" where
  "GetLabelsForCR cr = [''app'' \<mapsto> Name cr]"

text \<open>
  A nil pointer that a builder dereferences makes the Go function panic; the model returns
  the panic as an error value.
\<close>

datatype panic = NilPointerDereference

text \<open>
  \<^verbatim>\<open>newImageStreamFromDocker\<close>. The package-level table \<^verbatim>\<open>buildTypeImages\<close>
  (a Go \<^verbatim>\<open>map[string]string\<close>) is declared outside the sources, so the builder
  takes it as its first argument \<open>images\<close>. The result is a pointer: \<open>None\<close> is
  Go's nil. The object reference of the tag sets no namespace (Go's zero value, the empty
  string).
\<close>

definition newImageStreamFromDocker ::
  "(string \<rightharpoonup> string) \<Rightarrow> Component \<Rightarrow> ImageStream option" where
  "newImageStreamFromDocker images cr =
     (let labels = GetLabelsForCR cr in
      case images (BuildType (Spec cr)) of
        None \<Rightarrow> None
      | Some dockerImage \<Rightarrow>
          Some \<lparr>Name = BuildType (Spec cr),
                Namespace = Namespace cr,
                Labels = labels,
                ImageStream_Spec =
                  \<lparr>LookupPolicy = \<lparr>Local = False\<rparr>,
                   Tags =
                     [\<lparr>TagReference_Name = ''latest'',
                       TagReference_From =
                         Some \<lparr>Kind = ''DockerImage'',
                               ObjectReference_Namespace = '''',
                               ObjectReference_Name = dockerImage\<rparr>\<rparr>]\<rparr>\<rparr>)"

text \<open>
  \<^verbatim>\<open>newOutputImageStream\<close>: only the object metadata is set, so the spec of the
  image stream is Go's zero value (lookup policy not local, no tags).
\<close>

definition newOutputImageStream :: "Component \<Rightarrow> ImageStream" where
  "newOutputImageStream cr =
     (let labels = GetLabelsForCR cr in
      \<lparr>Name = Name cr,
       Namespace = Namespace cr,
       Labels = labels,
       ImageStream_Spec = \<lparr>LookupPolicy = \<lparr>Local = False\<rparr>, Tags = []\<rparr>\<rparr>)"

text \<open>
  \<^verbatim>\<open>newBuildConfig\<close>. \<^verbatim>\<open>builder\<close> is a pointer that the function dereferences
  (\<^verbatim>\<open>builder.Name\<close>, \<^verbatim>\<open>builder.Namespace\<close>) without a nil check.
\<close>

definition newBuildConfig :: "Component \<Rightarrow> ImageStream option \<Rightarrow> panic + BuildConfig" where
  "newBuildConfig cr builder =
     (let labels = GetLabelsForCR cr;
          buildSource =
            \<lparr>BuildSource_Type = BuildSourceGit,
             Git = Some \<lparr>URI = Codebase (Spec cr), Ref = ''master''\<rparr>\<rparr>;
          incremental = True
      in case builder of
        None \<Rightarrow> Inl NilPointerDereference
      | Some b \<Rightarrow>
          Inr \<lparr>Name = Name cr, Namespace = Namespace cr, Labels = labels,
               BuildConfig_Spec =
                 \<lparr>Source = buildSource,
                  Strategy =
                    \<lparr>SourceStrategy =
                       Some \<lparr>SourceBuildStrategy_From =
                               \<lparr>Kind = ''ImageStreamTag'',
                                ObjectReference_Namespace = Namespace b,
                                ObjectReference_Name = Name b @ '':latest''\<rparr>,
                             Incremental = Some incremental\<rparr>\<rparr>,
                  Output =
                    \<lparr>To = Some \<lparr>Kind = ''ImageStreamTag'',
                                ObjectReference_Namespace = '''',
                                ObjectReference_Name = Name cr @ '':latest''\<rparr>\<rparr>,
                  BuildConfigSpec_Triggers =
                    [\<lparr>BuildTriggerPolicy_Type = ''ConfigChange'', ImageChange = None\<rparr>,
                     \<lparr>BuildTriggerPolicy_Type = ''ImageChange'',
                      ImageChange =
                        Some \<lparr>LastTriggeredImageID = '''',
                              ImageChangeTrigger_From = None\<rparr>\<rparr>]\<rparr>\<rparr>)"

text \<open>
  \<^verbatim>\<open>newDeploymentConfig\<close>. \<^verbatim>\<open>output\<close> is a pointer that the function
  dereferences (\<^verbatim>\<open>output.Name\<close>) without a nil check.
\<close>

definition newDeploymentConfig ::
  "Component \<Rightarrow> ImageStream option \<Rightarrow> panic + DeploymentConfig" where
  "newDeploymentConfig cr output =
     (let labels = GetLabelsForCR cr in
      case output of
        None \<Rightarrow> Inl NilPointerDereference
      | Some out \<Rightarrow>
          Inr \<lparr>Name = Name cr, Namespace = Namespace cr, Labels = labels,
               DeploymentConfig_Spec =
                 \<lparr>DeploymentConfigSpec_Strategy =
                    \<lparr>DeploymentStrategy_Type = DeploymentStrategyTypeRecreate\<rparr>,
                  Replicas = 1,
                  Selector = labels,
                  Template =
                    Some \<lparr>Name = Name cr, Namespace = Namespace cr, Labels = labels,
                          PodTemplateSpec_Spec =
                            \<lparr>Containers =
                               [\<lparr>Container_Name = Name out,
                                 Image = Name out @ '':latest'',
                                 Ports =
                                   [\<lparr>ContainerPort_ContainerPort = 8080,
                                     ContainerPort_Protocol = ProtocolTCP\<rparr>]\<rparr>]\<rparr>\<rparr>,
                  DeploymentConfigSpec_Triggers =
                    [\<lparr>DeploymentTriggerPolicy_Type = DeploymentTriggerOnConfigChange,
                      ImageChangeParams = None\<rparr>,
                     \<lparr>DeploymentTriggerPolicy_Type = DeploymentTriggerOnImageChange,
                      ImageChangeParams =
                        Some \<lparr>Automatic = True,
                              ContainerNames = [Name out],
                              ImageChangeParams_From =
                                \<lparr>Kind = ''ImageStreamTag'',
                                 ObjectReference_Namespace = '''',
                                 ObjectReference_Name = Name out @ '':latest''\<rparr>\<rparr>\<rparr>]\<rparr>\<rparr>)"

text \<open>
  The containers of the pod template of a built deployment configuration (none when the
  builder panicked or the template is nil); used to state properties of the builder.
\<close>

definition containersOf :: "panic + DeploymentConfig \<Rightarrow> Container list" where
  "containersOf r =
     (case r of
        Inl p \<Rightarrow> []
      | Inr dc \<Rightarrow>
          (case Template (DeploymentConfig_Spec dc) of
             None \<Rightarrow> []
           | Some t \<Rightarrow> Containers (PodTemplateSpec_Spec t)))"

section \<open>The cluster store\<close>

text \<open>
  Modelled from the spec: the store is an external collaborator of the controller (the
  client of the orchestration runtime; in the controller test, an in-memory fake). The
  spec describes it as a key-value store over typed resources, addressed by
  (namespace, name), with \<open>Get\<close> (not-found is a distinguishable condition) and
  \<open>Create\<close> (already-exists is a distinguishable condition). The model is the in-memory
  store: one map per resource type, and no failure other than these two.
\<close>

type_synonym NamespacedName = "string \<times> string"

record cluster =
  components :: "NamespacedName \<rightharpoonup> Component"
  imageStreams :: "NamespacedName \<rightharpoonup> ImageStream"
  buildConfigs :: "NamespacedName \<rightharpoonup> BuildConfig"
  deploymentConfigs :: "NamespacedName \<rightharpoonup> DeploymentConfig"

datatype create_result = Created | AlreadyExists

text \<open>
  \<open>Get\<close> is the lookup of the map (\<open>None\<close> is not-found). \<open>Create\<close> stores an object
  under its own (namespace, name); on a key that is taken it leaves the store as it is and
  answers already-exists.
\<close>

definition Create ::
  "(NamespacedName \<rightharpoonup> 'a ObjectMeta_scheme) \<Rightarrow> 'a ObjectMeta_scheme \<Rightarrow>
     (NamespacedName \<rightharpoonup> 'a ObjectMeta_scheme) \<times> create_result" where
  "Create m obj =
     (case m (Namespace obj, Name obj) of
        Some existing \<Rightarrow> (m, AlreadyExists)
      | None \<Rightarrow> (m((Namespace obj, Name obj) \<mapsto> obj), Created))"

section \<open>The reconciler\<close>

text \<open>
  The calls to \<open>Create\<close> that a pass issues, in order, each with the store's answer.
\<close>

datatype create_call =
  CreateImageStream ImageStream
  | CreateBuildConfig BuildConfig
  | CreateDeploymentConfig DeploymentConfig

type_synonym trace = "(create_call \<times> create_result) list"

datatype reconcile_error = BuilderImageNotFound | Panic panic

text \<open>
  Modelled from the spec: the shared/system namespace in which cluster-local builder
  images are looked up; the controller's constant is not among the sources. The controller
  test seeds the cluster-local image in namespace \<open>openshift\<close>.
\<close>

definition sharedNamespace :: string where
  "sharedNamespace = ''openshift''"

text \<open>
  Modelled from the spec: step 2 of the reconciler (resolve builder image); the controller
  (\<^verbatim>\<open>ReconcileComponent.Reconcile\<close> and its helpers) is not among the sources. A
  cluster-local image stream named after the build runtime in the shared namespace is
  used as it is and nothing is created. Otherwise the declared builder image is built
  from the mapping table: if there is one it is created (already-exists counts as success)
  and used; if there is none the builder is unresolved (\<open>None\<close>).
\<close>

definition resolveBuilder ::
  "(string \<rightharpoonup> string) \<Rightarrow> Component \<Rightarrow> cluster \<Rightarrow> cluster \<times> trace \<times> ImageStream option" where
  "resolveBuilder images cr s =
     (case imageStreams s (sharedNamespace, BuildType (Spec cr)) of
        Some found \<Rightarrow> (s, [], Some found)
      | None \<Rightarrow>
          (case newImageStreamFromDocker images cr of
             None \<Rightarrow> (s, [], None)
           | Some b \<Rightarrow>
               (let (m, r) = Create (imageStreams s) b
                in (s\<lparr>imageStreams := m\<rparr>, [(CreateImageStream b, r)], Some b))))"

text \<open>
  Modelled from the spec: \<^verbatim>\<open>ReconcileComponent.Reconcile\<close>, which is not among the
  sources (only its test is). The steps are those of the spec's reconciler: fetch the
  descriptor (not found: succeed with no action); resolve the builder image; ensure the
  output image; ensure the build pipeline built from the resolved builder; ensure the
  deployment built from the output image; every create treats already-exists as success.
  An unresolved builder fails the pass. The spec's testable properties and the controller
  test (\<^verbatim>\<open>with ReconcileComponent CR without buildtype\<close>) require the output image to
  exist after such a failing pass, so the failure is returned once the output image has
  been ensured, before the build pipeline. The result is the store after the pass, the
  creates the pass issued, and the error of the pass (\<open>None\<close> is success).
\<close>

definition Reconcile ::
  "(string \<rightharpoonup> string) \<Rightarrow> cluster \<Rightarrow> NamespacedName \<Rightarrow>
     cluster \<times> trace \<times> reconcile_error option" where
  "Reconcile images s request =
     (case components s request of
        None \<Rightarrow> (s, [], None)
      | Some cr \<Rightarrow>
          (let (s1, t1, builderRef) = resolveBuilder images cr s;
               outputRef = newOutputImageStream cr;
               (m2, r2) = Create (imageStreams s1) outputRef;
               s2 = s1\<lparr>imageStreams := m2\<rparr>;
               t2 = t1 @ [(CreateImageStream outputRef, r2)]
           in case builderRef of
                None \<Rightarrow> (s2, t2, Some BuilderImageNotFound)
              | Some b \<Rightarrow>
                  (case newBuildConfig cr (Some b) of
                     Inl p \<Rightarrow> (s2, t2, Some (Panic p))
                   | Inr bc \<Rightarrow>
                       (let (m3, r3) = Create (buildConfigs s2) bc;
                            s3 = s2\<lparr>buildConfigs := m3\<rparr>;
                            t3 = t2 @ [(CreateBuildConfig bc, r3)]
                        in case newDeploymentConfig cr (Some outputRef) of
                             Inl p \<Rightarrow> (s3, t3, Some (Panic p))
                           | Inr dc \<Rightarrow>
                               (let (m4, r4) = Create (deploymentConfigs s3) dc;
                                    s4 = s3\<lparr>deploymentConfigs := m4\<rparr>
                                in (s4, t3 @ [(CreateDeploymentConfig dc, r4)], None))))))"

section \<open>The objects of the controller test\<close>

text \<open>
  Modelled from the spec: the package's table \<^verbatim>\<open>buildTypeImages\<close> is declared outside
  the sources. The spec documents one entry of it, the one the controller test reads back
  from the declared builder image. The builders and the reconciler take the table as an
  argument; this instance is used in the examples only.
\<close>

definition buildTypeImages :: "string \<rightharpoonup> string" where
  "buildTypeImages = [''nodejs'' \<mapsto> ''nodeshift/centos7-s2i-nodejs:10.x'']"

text \<open>The Component \<^verbatim>\<open>cp\<close> of \<^verbatim>\<open>TestComponentController\<close>, with its two fields as arguments.\<close>

definition cp :: "string \<Rightarrow> string \<Rightarrow> Component" where
  "cp buildType codebase =
     \<lparr>Name = ''MyComp'', Namespace = ''test-project'', Labels = Map.empty,
      Spec = \<lparr>BuildType = buildType, Codebase = codebase\<rparr>\<rparr>"

text \<open>The image stream \<^verbatim>\<open>isNodejs\<close> that the second subtest seeds.\<close>

definition isNodejs :: ImageStream where
  "isNodejs =
     \<lparr>Name = ''nodejs'', Namespace = ''openshift'', Labels = Map.empty,
      ImageStream_Spec = \<lparr>LookupPolicy = \<lparr>Local = False\<rparr>, Tags = []\<rparr>\<rparr>"

text \<open>The fake client's store: the tracked Component and the seeded image streams.\<close>

definition NewFakeClient :: "Component \<Rightarrow> ImageStream list \<Rightarrow> cluster" where
  "NewFakeClient c iss =
     \<lparr>components = [(Namespace c, Name c) \<mapsto> c],
      imageStreams = map_of (map (\<lambda>i. ((Namespace i, Name i), i)) iss),
      buildConfigs = Map.empty,
      deploymentConfigs = Map.empty\<rparr>"

definition req :: NamespacedName where
  "req = (''test-project'', ''MyComp'')"

section \<open>Properties of the resource template builders\<close>

text \<open>
  Claim C1. For a mapping table that has no entry for the empty build runtime,
  \<open>newImageStreamFromDocker\<close> returns nil when the Component's build runtime
  (\<open>Spec.BuildType\<close>) is empty or is not a key of the table. When the table maps the
  build runtime to an image, it returns an image stream named after the build runtime, in
  the Component's namespace, with exactly one tag, named \<open>latest\<close>, whose source is the
  Docker image the table gives.
\<close>

theorem newImageStreamFromDocker_absent_or_declared:
  assumes "images '''' = None"
  shows "(BuildType (Spec cr) = '''' \<or> BuildType (Spec cr) \<notin> dom images \<longrightarrow>
            newImageStreamFromDocker images cr = None) \<and>
         (\<forall>dockerImage. images (BuildType (Spec cr)) = Some dockerImage \<longrightarrow>
            (\<exists>b. newImageStreamFromDocker images cr = Some b \<and>
                 Name b = BuildType (Spec cr) \<and>
                 Namespace b = Namespace cr \<and>
                 Tags (ImageStream_Spec b) =
                   [\<lparr>TagReference_Name = ''latest'',
                     TagReference_From =
                       Some \<lparr>Kind = ''DockerImage'',
                             ObjectReference_Namespace = '''',
                             ObjectReference_Name = dockerImage\<rparr>\<rparr>]))"
proof (intro conjI impI allI)
  assume "BuildType (Spec cr) = '''' \<or> BuildType (Spec cr) \<notin> dom images"
  with assms have "images (BuildType (Spec cr)) = None"
    by auto
  then show "newImageStreamFromDocker images cr = None"
    by (simp add: newImageStreamFromDocker_def)
next
  fix dockerImage
  assume "images (BuildType (Spec cr)) = Some dockerImage"
  then show "\<exists>b. newImageStreamFromDocker images cr = Some b \<and>
                 Name b = BuildType (Spec cr) \<and>
                 Namespace b = Namespace cr \<and>
                 Tags (ImageStream_Spec b) =
                   [\<lparr>TagReference_Name = ''latest'',
                     TagReference_From =
                       Some \<lparr>Kind = ''DockerImage'',
                             ObjectReference_Namespace = '''',
                             ObjectReference_Name = dockerImage\<rparr>\<rparr>]"
    by (simp add: newImageStreamFromDocker_def)
qed

theorem newImageStreamFromDocker_absent_or_declared_witness:
  "buildTypeImages '''' = None \<and>
   newImageStreamFromDocker buildTypeImages (cp '''' ''https://somegit.con/myrepo'') = None \<and>
   newImageStreamFromDocker buildTypeImages (cp ''golang'' ''https://somegit.con/myrepo'') = None \<and>
   (\<exists>b. newImageStreamFromDocker buildTypeImages (cp ''nodejs'' ''https://somegit.con/myrepo'') = Some b \<and>
        Name b = ''nodejs'' \<and> Namespace b = ''test-project'' \<and>
        Tags (ImageStream_Spec b) =
          [\<lparr>TagReference_Name = ''latest'',
            TagReference_From =
              Some \<lparr>Kind = ''DockerImage'',
                    ObjectReference_Namespace = '''',
                    ObjectReference_Name = ''nodeshift/centos7-s2i-nodejs:10.x''\<rparr>\<rparr>])"
proof -
  have h: "buildTypeImages '''' = None"
    by (simp add: buildTypeImages_def)
  have a: "BuildType (Spec (cp '''' ''https://somegit.con/myrepo'')) = ''''"
    by (simp add: cp_def)
  have b: "BuildType (Spec (cp ''golang'' ''https://somegit.con/myrepo'')) \<notin> dom buildTypeImages"
    by (simp add: cp_def buildTypeImages_def)
  have c: "buildTypeImages (BuildType (Spec (cp ''nodejs'' ''https://somegit.con/myrepo''))) =
             Some ''nodeshift/centos7-s2i-nodejs:10.x''"
    by (simp add: cp_def buildTypeImages_def)
  have n: "BuildType (Spec (cp ''nodejs'' ''https://somegit.con/myrepo'')) = ''nodejs''"
      "Namespace (cp ''nodejs'' ''https://somegit.con/myrepo'') = ''test-project''"
    by (simp_all add: cp_def)
  from newImageStreamFromDocker_absent_or_declared [where images = buildTypeImages and cr = "cp '''' ''https://somegit.con/myrepo''", OF h] a
  have 1: "newImageStreamFromDocker buildTypeImages (cp '''' ''https://somegit.con/myrepo'') = None"
    by blast
  from newImageStreamFromDocker_absent_or_declared [where images = buildTypeImages and cr = "cp ''golang'' ''https://somegit.con/myrepo''", OF h] b
  have 2: "newImageStreamFromDocker buildTypeImages (cp ''golang'' ''https://somegit.con/myrepo'') = None"
    by blast
  from newImageStreamFromDocker_absent_or_declared [where images = buildTypeImages and cr = "cp ''nodejs'' ''https://somegit.con/myrepo''", OF h] c
  have 3: "\<exists>b. newImageStreamFromDocker buildTypeImages (cp ''nodejs'' ''https://somegit.con/myrepo'') = Some b \<and>
        Name b = ''nodejs'' \<and> Namespace b = ''test-project'' \<and>
        Tags (ImageStream_Spec b) =
          [\<lparr>TagReference_Name = ''latest'',
            TagReference_From =
              Some \<lparr>Kind = ''DockerImage'',
                    ObjectReference_Namespace = '''',
                    ObjectReference_Name = ''nodeshift/centos7-s2i-nodejs:10.x''\<rparr>\<rparr>]"
    unfolding n by blast
  from h 1 2 3 show ?thesis by blast
qed

text \<open>
  Claim C5. The (namespace, name) of every derived resource is determined by the
  Component's namespace and name and, for the declared builder image, its build runtime:
  the declared builder image (when the table maps the build runtime) is named after the
  build runtime in the Component's namespace; the output image, the build configuration and
  the deployment configuration are named after the Component in the Component's namespace,
  whatever builder and output references they are built from.
\<close>

theorem derived_resource_names:
  "(\<forall>dockerImage. images (BuildType (Spec cr)) = Some dockerImage \<longrightarrow>
      (\<exists>b. newImageStreamFromDocker images cr = Some b \<and>
           Namespace b = Namespace cr \<and> Name b = BuildType (Spec cr))) \<and>
   Namespace (newOutputImageStream cr) = Namespace cr \<and>
   Name (newOutputImageStream cr) = Name cr \<and>
   (\<exists>bc. newBuildConfig cr (Some builder) = Inr bc \<and>
         Namespace bc = Namespace cr \<and> Name bc = Name cr) \<and>
   (\<exists>dc. newDeploymentConfig cr (Some outputRef) = Inr dc \<and>
         Namespace dc = Namespace cr \<and> Name dc = Name cr)"
  by (simp add: newImageStreamFromDocker_def newOutputImageStream_def newBuildConfig_def
      newDeploymentConfig_def Let_def)

theorem derived_resource_names_witness:
  "buildTypeImages (BuildType (Spec (cp ''nodejs'' ''https://somegit.con/myrepo''))) =
     Some ''nodeshift/centos7-s2i-nodejs:10.x'' \<and>
   (\<exists>b. newImageStreamFromDocker buildTypeImages (cp ''nodejs'' ''https://somegit.con/myrepo'') = Some b \<and>
        Namespace b = ''test-project'' \<and> Name b = ''nodejs'') \<and>
   Namespace (newOutputImageStream (cp ''nodejs'' ''https://somegit.con/myrepo'')) = ''test-project'' \<and>
   Name (newOutputImageStream (cp ''nodejs'' ''https://somegit.con/myrepo'')) = ''MyComp'' \<and>
   (\<exists>bc. newBuildConfig (cp ''nodejs'' ''https://somegit.con/myrepo'') (Some isNodejs) = Inr bc \<and>
         Namespace bc = ''test-project'' \<and> Name bc = ''MyComp'') \<and>
   (\<exists>dc. newDeploymentConfig (cp ''nodejs'' ''https://somegit.con/myrepo'')
           (Some (newOutputImageStream (cp ''nodejs'' ''https://somegit.con/myrepo''))) = Inr dc \<and>
         Namespace dc = ''test-project'' \<and> Name dc = ''MyComp'')"
proof -
  let ?c = "cp ''nodejs'' ''https://somegit.con/myrepo''"
  have h: "buildTypeImages (BuildType (Spec ?c)) = Some ''nodeshift/centos7-s2i-nodejs:10.x''"
    by (simp add: cp_def buildTypeImages_def)
  have n: "Namespace ?c = ''test-project''" "Name ?c = ''MyComp''" "BuildType (Spec ?c) = ''nodejs''"
    by (simp_all add: cp_def)
  from derived_resource_names [where images = buildTypeImages and cr = ?c
      and builder = isNodejs and outputRef = "newOutputImageStream ?c"] h
  show ?thesis
    unfolding n by blast
qed

text \<open>
  Claim C6. For every Component and every non-nil builder reference, \<open>newBuildConfig\<close>
  returns a build configuration (it does not panic) whose Git source has the Component's
  codebase as URI and \<open>master\<close> as ref, whose output is the image stream tag
  \<open><component name>:latest\<close>, whose source strategy builds from the image stream tag
  \<open><builder name>:latest\<close> in the builder's namespace with the incremental flag set,
  and which has exactly two triggers, in order \<open>ConfigChange\<close>, \<open>ImageChange\<close>.
\<close>

theorem newBuildConfig_fields:
  "\<exists>bc. newBuildConfig cr (Some builderRef) = Inr bc \<and>
      Git (Source (BuildConfig_Spec bc)) = Some \<lparr>URI = Codebase (Spec cr), Ref = ''master''\<rparr> \<and>
      To (Output (BuildConfig_Spec bc)) =
        Some \<lparr>Kind = ''ImageStreamTag'', ObjectReference_Namespace = '''',
              ObjectReference_Name = Name cr @ '':latest''\<rparr> \<and>
      SourceStrategy (Strategy (BuildConfig_Spec bc)) =
        Some \<lparr>SourceBuildStrategy_From =
                \<lparr>Kind = ''ImageStreamTag'',
                 ObjectReference_Namespace = Namespace builderRef,
                 ObjectReference_Name = Name builderRef @ '':latest''\<rparr>,
              Incremental = Some True\<rparr> \<and>
      length (BuildConfigSpec_Triggers (BuildConfig_Spec bc)) = 2 \<and>
      map BuildTriggerPolicy_Type (BuildConfigSpec_Triggers (BuildConfig_Spec bc)) =
        [''ConfigChange'', ''ImageChange'']"
  by (simp add: newBuildConfig_def)

text \<open>
  Claim C7, as stated, gives the container the name \<open><output name>:latest\<close>. The
  builder names the container after the output image stream, without the tag; only the
  image carries \<open>:latest\<close>. For the Component of the controller test the container is
  named \<open>MyComp\<close>, not \<open>MyComp:latest\<close>.
\<close>

theorem newDeploymentConfig_container_name_counterexample:
  "map Container_Name
     (containersOf
        (newDeploymentConfig (cp ''nodejs'' ''https://somegit.con/myrepo'')
           (Some (newOutputImageStream (cp ''nodejs'' ''https://somegit.con/myrepo''))))) =
     [''MyComp''] \<and>
   Name (newOutputImageStream (cp ''nodejs'' ''https://somegit.con/myrepo'')) @ '':latest'' =
     ''MyComp:latest'' \<and>
   ''MyComp'' \<noteq> ''MyComp:latest''"
  by (simp add: containersOf_def newDeploymentConfig_def newOutputImageStream_def cp_def Let_def)

text \<open>
  Claim C7, amended. For every Component and every non-nil output reference,
  \<open>newDeploymentConfig\<close> returns a deployment configuration with one replica, the
  recreate strategy, selector and pod template labels \<open>app=<component name>\<close>, exactly
  one container, named \<open><output name>\<close> with image \<open><output name>:latest\<close> and
  exactly one port, TCP 8080, and exactly two triggers, in order config-change and
  image-change, the image-change trigger being automatic, for the container
  \<open><output name>\<close>, from the image stream tag \<open><output name>:latest\<close>.
\<close>

theorem newDeploymentConfig_fields:
  "\<exists>dc t. newDeploymentConfig cr (Some outputRef) = Inr dc \<and>
      Replicas (DeploymentConfig_Spec dc) = 1 \<and>
      DeploymentStrategy_Type (DeploymentConfigSpec_Strategy (DeploymentConfig_Spec dc)) =
        DeploymentStrategyTypeRecreate \<and>
      Selector (DeploymentConfig_Spec dc) = [''app'' \<mapsto> Name cr] \<and>
      Template (DeploymentConfig_Spec dc) = Some t \<and>
      Labels t = [''app'' \<mapsto> Name cr] \<and>
      Containers (PodTemplateSpec_Spec t) =
        [\<lparr>Container_Name = Name outputRef,
          Image = Name outputRef @ '':latest'',
          Ports = [\<lparr>ContainerPort_ContainerPort = 8080,
                    ContainerPort_Protocol = ProtocolTCP\<rparr>]\<rparr>] \<and>
      DeploymentConfigSpec_Triggers (DeploymentConfig_Spec dc) =
        [\<lparr>DeploymentTriggerPolicy_Type = DeploymentTriggerOnConfigChange,
          ImageChangeParams = None\<rparr>,
         \<lparr>DeploymentTriggerPolicy_Type = DeploymentTriggerOnImageChange,
          ImageChangeParams =
            Some \<lparr>Automatic = True,
                  ContainerNames = [Name outputRef],
                  ImageChangeParams_From =
                    \<lparr>Kind = ''ImageStreamTag'', ObjectReference_Namespace = '''',
                     ObjectReference_Name = Name outputRef @ '':latest''\<rparr>\<rparr>\<rparr>]"
  by (simp add: newDeploymentConfig_def GetLabelsForCR_def Let_def)

text \<open>
  Claim C9. Every resource that the four builders return carries exactly one label,
  \<open>app=<Component.name>\<close>: the declared builder image (when there is one), the output
  image, the build configuration and the deployment configuration; the selector of the
  deployment configuration is that same label.
\<close>

theorem derived_resource_labels:
  "(\<forall>dockerImage. images (BuildType (Spec cr)) = Some dockerImage \<longrightarrow>
      (\<exists>b. newImageStreamFromDocker images cr = Some b \<and>
           Labels b = [''app'' \<mapsto> Name cr])) \<and>
   Labels (newOutputImageStream cr) = [''app'' \<mapsto> Name cr] \<and>
   (\<exists>bc. newBuildConfig cr (Some builder) = Inr bc \<and> Labels bc = [''app'' \<mapsto> Name cr]) \<and>
   (\<exists>dc. newDeploymentConfig cr (Some outputRef) = Inr dc \<and>
         Labels dc = [''app'' \<mapsto> Name cr] \<and>
         Selector (DeploymentConfig_Spec dc) = [''app'' \<mapsto> Name cr]) \<and>
   dom [''app'' \<mapsto> Name cr] = {''app''}"
  by (simp add: newImageStreamFromDocker_def newOutputImageStream_def newBuildConfig_def
      newDeploymentConfig_def GetLabelsForCR_def Let_def)

theorem derived_resource_labels_witness:
  "buildTypeImages (BuildType (Spec (cp ''nodejs'' ''https://somegit.con/myrepo''))) =
     Some ''nodeshift/centos7-s2i-nodejs:10.x'' \<and>
   (\<exists>b. newImageStreamFromDocker buildTypeImages (cp ''nodejs'' ''https://somegit.con/myrepo'') = Some b \<and>
        Labels b = [''app'' \<mapsto> ''MyComp''])"
proof -
  let ?c = "cp ''nodejs'' ''https://somegit.con/myrepo''"
  have h: "buildTypeImages (BuildType (Spec ?c)) = Some ''nodeshift/centos7-s2i-nodejs:10.x''"
    by (simp add: cp_def buildTypeImages_def)
  have n: "Name ?c = ''MyComp''"
    by (simp add: cp_def)
  from derived_resource_labels [where images = buildTypeImages and cr = ?c] h
  show ?thesis
    unfolding n by blast
qed

text \<open>
  Claim C10. When the table maps the Component's build runtime, the declared builder
  image returned by \<open>newImageStreamFromDocker\<close> has the field \<open>Local\<close> of its lookup
  policy set to false.
\<close>

theorem newImageStreamFromDocker_lookup_not_local:
  "images (BuildType (Spec cr)) = Some dockerImage \<Longrightarrow>
   \<exists>b. newImageStreamFromDocker images cr = Some b \<and>
       Local (LookupPolicy (ImageStream_Spec b)) = False"
  by (simp add: newImageStreamFromDocker_def)

theorem newImageStreamFromDocker_lookup_not_local_witness:
  "buildTypeImages (BuildType (Spec (cp ''nodejs'' ''https://somegit.con/myrepo''))) =
     Some ''nodeshift/centos7-s2i-nodejs:10.x'' \<and>
   (\<exists>b. newImageStreamFromDocker buildTypeImages (cp ''nodejs'' ''https://somegit.con/myrepo'') = Some b \<and>
        Local (LookupPolicy (ImageStream_Spec b)) = False)"
proof -
  let ?c = "cp ''nodejs'' ''https://somegit.con/myrepo''"
  have h: "buildTypeImages (BuildType (Spec ?c)) = Some ''nodeshift/centos7-s2i-nodejs:10.x''"
    by (simp add: cp_def buildTypeImages_def)
  from h newImageStreamFromDocker_lookup_not_local [where images = buildTypeImages and cr = ?c, OF h]
  show ?thesis by blast
qed

section \<open>Properties of the store\<close>


lemma Create_taken:
  "m (Namespace obj, Name obj) = Some v \<Longrightarrow> Create m obj = (m, AlreadyExists)"
  by (simp add: Create_def)

lemma Create_stores:
  "\<exists>v. fst (Create m obj) (Namespace obj, Name obj) = Some v \<and>
       (m (Namespace obj, Name obj) = None \<longrightarrow> v = obj)"
  by (cases "m (Namespace obj, Name obj)") (simp_all add: Create_def)

lemma Create_keeps:
  "m k = Some v \<Longrightarrow> fst (Create m obj) k = Some v"
  by (cases "m (Namespace obj, Name obj)") (auto simp: Create_def)

lemma Create_elsewhere:
  "k \<noteq> (Namespace obj, Name obj) \<Longrightarrow> fst (Create m obj) k = m k"
  by (cases "m (Namespace obj, Name obj)") (auto simp: Create_def)

section \<open>Properties of the reconciler\<close>

text \<open>The results of the builders that a pass relies on.\<close>

lemma newImageStreamFromDocker_Some:
  "images (BuildType (Spec cr)) = Some dockerImage \<Longrightarrow>
   \<exists>b. newImageStreamFromDocker images cr = Some b \<and>
       Namespace b = Namespace cr \<and> Name b = BuildType (Spec cr)"
  by (simp add: newImageStreamFromDocker_def)

lemma newBuildConfig_Some:
  "\<exists>bc. newBuildConfig cr (Some b) = Inr bc \<and> Namespace bc = Namespace cr \<and> Name bc = Name cr"
  by (simp add: newBuildConfig_def)


lemma newDeploymentConfig_Some:
  "\<exists>dc. newDeploymentConfig cr (Some out) = Inr dc \<and> Namespace dc = Namespace cr \<and> Name dc = Name cr"
  by (simp add: newDeploymentConfig_def Let_def)

lemma newOutputImageStream_key:
  "Namespace (newOutputImageStream cr) = Namespace cr" "Name (newOutputImageStream cr) = Name cr"
  by (simp_all add: newOutputImageStream_def)

text \<open>The three outcomes of the builder resolution.\<close>

lemma resolveBuilder_local:
  "imageStreams s (sharedNamespace, BuildType (Spec cr)) = Some found \<Longrightarrow>
   resolveBuilder images cr s = (s, [], Some found)"
  by (simp add: resolveBuilder_def)

lemma resolveBuilder_unresolved:
  "imageStreams s (sharedNamespace, BuildType (Spec cr)) = None \<Longrightarrow>
   images (BuildType (Spec cr)) = None \<Longrightarrow>
   resolveBuilder images cr s = (s, [], None)"
  by (simp add: resolveBuilder_def newImageStreamFromDocker_def)

lemma resolveBuilder_declared:
  "imageStreams s (sharedNamespace, BuildType (Spec cr)) = None \<Longrightarrow>
   newImageStreamFromDocker images cr = Some b \<Longrightarrow>
   resolveBuilder images cr s =
     (s\<lparr>imageStreams := fst (Create (imageStreams s) b)\<rparr>,
      [(CreateImageStream b, snd (Create (imageStreams s) b))], Some b)"
  by (simp add: resolveBuilder_def split: prod.split)

text \<open>
  A pass on a Component that the store holds, by the outcome of the builder resolution:
  unresolved, resolved, and resolved in a store that already holds the three resources
  named after the Component.
\<close>

lemma Reconcile_unresolved:
  "components s request = Some cr \<Longrightarrow>
   resolveBuilder images cr s = (s1, t1, None) \<Longrightarrow>
   Reconcile images s request =
     (s1\<lparr>imageStreams := fst (Create (imageStreams s1) (newOutputImageStream cr))\<rparr>,
      t1 @ [(CreateImageStream (newOutputImageStream cr),
             snd (Create (imageStreams s1) (newOutputImageStream cr)))],
      Some BuilderImageNotFound)"
  by (simp add: Reconcile_def Let_def split: prod.split)

lemma Reconcile_resolved:
  "components s request = Some cr \<Longrightarrow>
   resolveBuilder images cr s = (s1, t1, Some b) \<Longrightarrow>
   newBuildConfig cr (Some b) = Inr bc \<Longrightarrow>
   newDeploymentConfig cr (Some (newOutputImageStream cr)) = Inr dc \<Longrightarrow>
   Reconcile images s request =
     (s1\<lparr>imageStreams := fst (Create (imageStreams s1) (newOutputImageStream cr)),
         buildConfigs := fst (Create (buildConfigs s1) bc),
         deploymentConfigs := fst (Create (deploymentConfigs s1) dc)\<rparr>,
      t1 @ [(CreateImageStream (newOutputImageStream cr),
             snd (Create (imageStreams s1) (newOutputImageStream cr))),
            (CreateBuildConfig bc, snd (Create (buildConfigs s1) bc)),
            (CreateDeploymentConfig dc, snd (Create (deploymentConfigs s1) dc))],
      None)"
  by (simp add: Reconcile_def Let_def split: prod.split)

lemma Reconcile_again:
  assumes fetch: "components s request = Some cr"
    and builder: "resolveBuilder images cr s = (s, t, Some b)"
    and bc: "newBuildConfig cr (Some b) = Inr bc"
    and dc: "newDeploymentConfig cr (Some (newOutputImageStream cr)) = Inr dc"
    and out_there: "imageStreams s (Namespace cr, Name cr) = Some v1"
    and bc_there: "buildConfigs s (Namespace bc, Name bc) = Some v2"
    and dc_there: "deploymentConfigs s (Namespace dc, Name dc) = Some v3"
  shows "Reconcile images s request =
     (s, t @ [(CreateImageStream (newOutputImageStream cr), AlreadyExists),
              (CreateBuildConfig bc, AlreadyExists),
              (CreateDeploymentConfig dc, AlreadyExists)], None)"
proof -
  have 1: "Create (imageStreams s) (newOutputImageStream cr) = (imageStreams s, AlreadyExists)"
    using out_there by (simp add: Create_taken newOutputImageStream_key)
  have 2: "Create (buildConfigs s) bc = (buildConfigs s, AlreadyExists)"
    using bc_there by (simp add: Create_taken)
  have 3: "Create (deploymentConfigs s) dc = (deploymentConfigs s, AlreadyExists)"
    using dc_there by (simp add: Create_taken)
  show ?thesis
    using Reconcile_resolved [OF fetch builder bc dc] by (simp add: 1 2 3)
qed

text \<open>
  Claim C2. Let the store hold a Component whose build runtime is empty, let the mapping
  table have no entry for the empty runtime, and let no cluster-local image stream match
  (none named by the empty runtime in the shared namespace). Then the pass returns an
  error; afterwards an image stream exists under the Component's namespace and name (the
  output image built by \<open>newOutputImageStream\<close>, unless one was there before); and the
  pass leaves the build configurations and the deployment configurations of the store
  as they were, so that none named after the Component exists unless it did before.
\<close>

theorem Reconcile_empty_buildType_fails:
  assumes fetch: "components s request = Some cr"
    and empty: "BuildType (Spec cr) = ''''"
    and unmapped: "images '''' = None"
    and no_local: "imageStreams s (sharedNamespace, '''') = None"
  shows "\<exists>s1 t out.
           Reconcile images s request = (s1, t, Some BuilderImageNotFound) \<and>
           imageStreams s1 (Namespace cr, Name cr) = Some out \<and>
           (imageStreams s (Namespace cr, Name cr) = None \<longrightarrow> out = newOutputImageStream cr) \<and>
           buildConfigs s1 = buildConfigs s \<and>
           deploymentConfigs s1 = deploymentConfigs s \<and>
           (buildConfigs s (Namespace cr, Name cr) = None \<longrightarrow>
              buildConfigs s1 (Namespace cr, Name cr) = None) \<and>
           (deploymentConfigs s (Namespace cr, Name cr) = None \<longrightarrow>
              deploymentConfigs s1 (Namespace cr, Name cr) = None)"
proof -
  let ?out = "newOutputImageStream cr"
  have "resolveBuilder images cr s = (s, [], None)"
    using empty unmapped no_local by (simp add: resolveBuilder_unresolved)
  from Reconcile_unresolved [OF fetch this]
  have pass: "Reconcile images s request =
      (s\<lparr>imageStreams := fst (Create (imageStreams s) ?out)\<rparr>,
       [(CreateImageStream ?out, snd (Create (imageStreams s) ?out))],
       Some BuilderImageNotFound)"
    by simp
  obtain v where v: "fst (Create (imageStreams s) ?out) (Namespace cr, Name cr) = Some v"
      "imageStreams s (Namespace cr, Name cr) = None \<longrightarrow> v = ?out"
    using Create_stores [of "imageStreams s" ?out] by (auto simp: newOutputImageStream_key)
  show ?thesis
    using pass v by simp
qed

theorem Reconcile_empty_buildType_fails_witness:
  "components (NewFakeClient (cp '''' ''https://somegit.con/myrepo'') []) req =
     Some (cp '''' ''https://somegit.con/myrepo'') \<and>
   BuildType (Spec (cp '''' ''https://somegit.con/myrepo'')) = '''' \<and>
   buildTypeImages '''' = None \<and>
   imageStreams (NewFakeClient (cp '''' ''https://somegit.con/myrepo'') []) (sharedNamespace, '''') = None \<and>
   (\<exists>s1 t.
      Reconcile buildTypeImages (NewFakeClient (cp '''' ''https://somegit.con/myrepo'') []) req =
        (s1, t, Some BuilderImageNotFound) \<and>
      imageStreams s1 (''test-project'', ''MyComp'') =
        Some (newOutputImageStream (cp '''' ''https://somegit.con/myrepo'')) \<and>
      buildConfigs s1 (''test-project'', ''MyComp'') = None \<and>
      deploymentConfigs s1 (''test-project'', ''MyComp'') = None)"
proof -
  let ?C = "cp '''' ''https://somegit.con/myrepo''"
  let ?S = "NewFakeClient ?C []"
  have fetch: "components ?S req = Some ?C"
    by (simp add: NewFakeClient_def cp_def req_def)
  have empty: "BuildType (Spec ?C) = ''''"
    by (simp add: cp_def)
  have unmapped: "buildTypeImages '''' = None"
    by (simp add: buildTypeImages_def)
  have no_local: "imageStreams ?S (sharedNamespace, '''') = None"
    by (simp add: NewFakeClient_def)
  have key: "Namespace ?C = ''test-project''" "Name ?C = ''MyComp''"
    by (simp_all add: cp_def)
  have before: "imageStreams ?S (''test-project'', ''MyComp'') = None"
      "buildConfigs ?S (''test-project'', ''MyComp'') = None"
      "deploymentConfigs ?S (''test-project'', ''MyComp'') = None"
    by (simp_all add: NewFakeClient_def)
  from Reconcile_empty_buildType_fails [where images = buildTypeImages and s = ?S
      and request = req and cr = ?C, OF fetch empty unmapped no_local]
  have "\<exists>s1 t.
      Reconcile buildTypeImages ?S req = (s1, t, Some BuilderImageNotFound) \<and>
      imageStreams s1 (''test-project'', ''MyComp'') = Some (newOutputImageStream ?C) \<and>
      buildConfigs s1 (''test-project'', ''MyComp'') = None \<and>
      deploymentConfigs s1 (''test-project'', ''MyComp'') = None"
    unfolding key using before by auto
  with fetch empty unmapped no_local show ?thesis
    by blast
qed

text \<open>
  Claim C3. Let the store hold a Component and, in the shared namespace, an image stream
  named after the Component's build runtime. Then the pass succeeds and issues exactly
  three creates: the output image, the build configuration and the deployment
  configuration. No declared builder image is created: the only image stream the pass
  may add is the output image, and the key of the declared builder image (the Component's
  namespace, the build runtime) is left as it was when it is not the output image's key.
  The build configuration the pass creates builds from the image stream tag
  \<open><build runtime>:latest\<close> in the shared namespace; it is the one stored when none was
  there before.
\<close>

theorem Reconcile_prefers_cluster_local_builder:
  assumes fetch: "components s request = Some cr"
    and local: "imageStreams s (sharedNamespace, BuildType (Spec cr)) = Some localImage"
    and local_name: "Name localImage = BuildType (Spec cr)"
    and local_namespace: "Namespace localImage = sharedNamespace"
  shows "\<exists>s1 r1 bc r2 dc r3 strategy.
           Reconcile images s request =
             (s1,
              [(CreateImageStream (newOutputImageStream cr), r1),
               (CreateBuildConfig bc, r2),
               (CreateDeploymentConfig dc, r3)],
              None) \<and>
           imageStreams s1 = fst (Create (imageStreams s) (newOutputImageStream cr)) \<and>
           (Name cr \<noteq> BuildType (Spec cr) \<longrightarrow>
              imageStreams s1 (Namespace cr, BuildType (Spec cr)) =
                imageStreams s (Namespace cr, BuildType (Spec cr))) \<and>
           SourceStrategy (Strategy (BuildConfig_Spec bc)) = Some strategy \<and>
           SourceBuildStrategy_From strategy =
             \<lparr>Kind = ''ImageStreamTag'',
              ObjectReference_Namespace = sharedNamespace,
              ObjectReference_Name = BuildType (Spec cr) @ '':latest''\<rparr> \<and>
           (buildConfigs s (Namespace cr, Name cr) = None \<longrightarrow>
              buildConfigs s1 (Namespace cr, Name cr) = Some bc)"
proof -
  let ?out = "newOutputImageStream cr"
  obtain bc where bc: "newBuildConfig cr (Some localImage) = Inr bc"
      "Namespace bc = Namespace cr" "Name bc = Name cr"
    using newBuildConfig_Some by blast
  obtain dc where dc: "newDeploymentConfig cr (Some ?out) = Inr dc"
    using newDeploymentConfig_Some by blast
  have "resolveBuilder images cr s = (s, [], Some localImage)"
    using local by (rule resolveBuilder_local)
  from Reconcile_resolved [OF fetch this bc(1) dc]
  have pass: "Reconcile images s request =
     (s\<lparr>imageStreams := fst (Create (imageStreams s) ?out),
        buildConfigs := fst (Create (buildConfigs s) bc),
        deploymentConfigs := fst (Create (deploymentConfigs s) dc)\<rparr>,
      [(CreateImageStream ?out, snd (Create (imageStreams s) ?out)),
       (CreateBuildConfig bc, snd (Create (buildConfigs s) bc)),
       (CreateDeploymentConfig dc, snd (Create (deploymentConfigs s) dc))],
      None)"
    by simp
  have elsewhere: "Name cr \<noteq> BuildType (Spec cr) \<longrightarrow>
      fst (Create (imageStreams s) ?out) (Namespace cr, BuildType (Spec cr)) =
        imageStreams s (Namespace cr, BuildType (Spec cr))"
    by (simp add: Create_elsewhere newOutputImageStream_key)
  have strategy: "SourceStrategy (Strategy (BuildConfig_Spec bc)) =
      Some \<lparr>SourceBuildStrategy_From =
              \<lparr>Kind = ''ImageStreamTag'',
               ObjectReference_Namespace = sharedNamespace,
               ObjectReference_Name = BuildType (Spec cr) @ '':latest''\<rparr>,
            Incremental = Some True\<rparr>"
    using bc(1) local_name local_namespace by (auto simp: newBuildConfig_def)
  have stored: "buildConfigs s (Namespace cr, Name cr) = None \<longrightarrow>
      fst (Create (buildConfigs s) bc) (Namespace cr, Name cr) = Some bc"
    using Create_stores [of "buildConfigs s" bc] by (auto simp: bc)
  show ?thesis
    using pass elsewhere strategy stored by simp
qed

theorem Reconcile_prefers_cluster_local_builder_witness:
  "components (NewFakeClient (cp ''nodejs'' ''https://somegit.con/myrepo'') [isNodejs]) req =
     Some (cp ''nodejs'' ''https://somegit.con/myrepo'') \<and>
   imageStreams (NewFakeClient (cp ''nodejs'' ''https://somegit.con/myrepo'') [isNodejs])
     (sharedNamespace, BuildType (Spec (cp ''nodejs'' ''https://somegit.con/myrepo''))) = Some isNodejs \<and>
   Name isNodejs = BuildType (Spec (cp ''nodejs'' ''https://somegit.con/myrepo'')) \<and>
   Namespace isNodejs = sharedNamespace \<and>
   (\<exists>s1 r1 bc r2 dc r3 strategy.
      Reconcile buildTypeImages (NewFakeClient (cp ''nodejs'' ''https://somegit.con/myrepo'') [isNodejs]) req =
        (s1,
         [(CreateImageStream (newOutputImageStream (cp ''nodejs'' ''https://somegit.con/myrepo'')), r1),
          (CreateBuildConfig bc, r2),
          (CreateDeploymentConfig dc, r3)],
         None) \<and>
      imageStreams s1 (''test-project'', ''nodejs'') = None \<and>
      SourceStrategy (Strategy (BuildConfig_Spec bc)) = Some strategy \<and>
      SourceBuildStrategy_From strategy =
        \<lparr>Kind = ''ImageStreamTag'',
         ObjectReference_Namespace = ''openshift'',
         ObjectReference_Name = ''nodejs:latest''\<rparr> \<and>
      buildConfigs s1 (''test-project'', ''MyComp'') = Some bc)"
proof -
  let ?C = "cp ''nodejs'' ''https://somegit.con/myrepo''"
  let ?S = "NewFakeClient ?C [isNodejs]"
  have fetch: "components ?S req = Some ?C"
    by (simp add: NewFakeClient_def cp_def req_def)
  have local: "imageStreams ?S (sharedNamespace, BuildType (Spec ?C)) = Some isNodejs"
    by (simp add: NewFakeClient_def cp_def isNodejs_def sharedNamespace_def)
  have local_name: "Name isNodejs = BuildType (Spec ?C)"
    by (simp add: cp_def isNodejs_def)
  have local_namespace: "Namespace isNodejs = sharedNamespace"
    by (simp add: isNodejs_def sharedNamespace_def)
  have key: "Namespace ?C = ''test-project''" "Name ?C = ''MyComp''"
      "BuildType (Spec ?C) = ''nodejs''" "sharedNamespace = ''openshift''"
    by (simp_all add: cp_def sharedNamespace_def)
  have before: "imageStreams ?S (''test-project'', ''nodejs'') = None"
      "buildConfigs ?S (''test-project'', ''MyComp'') = None"
    by (simp_all add: NewFakeClient_def isNodejs_def)
  from Reconcile_prefers_cluster_local_builder [where images = buildTypeImages and s = ?S
      and request = req and cr = ?C and localImage = isNodejs,
      OF fetch local local_name local_namespace]
  have "\<exists>s1 r1 bc r2 dc r3 strategy.
      Reconcile buildTypeImages ?S req =
        (s1,
         [(CreateImageStream (newOutputImageStream ?C), r1),
          (CreateBuildConfig bc, r2),
          (CreateDeploymentConfig dc, r3)],
         None) \<and>
      imageStreams s1 (''test-project'', ''nodejs'') = None \<and>
      SourceStrategy (Strategy (BuildConfig_Spec bc)) = Some strategy \<and>
      SourceBuildStrategy_From strategy =
        \<lparr>Kind = ''ImageStreamTag'',
         ObjectReference_Namespace = ''openshift'',
         ObjectReference_Name = ''nodejs:latest''\<rparr> \<and>
      buildConfigs s1 (''test-project'', ''MyComp'') = Some bc"
    unfolding key using before by (simp del: ex_simps) blast
  with fetch local local_name local_namespace show ?thesis
    by blast
qed

text \<open>
  Claim C4. Let the store hold a Component whose build runtime the table maps. Then a
  first pass succeeds, and a second pass on the store it leaves succeeds too and returns
  that same store: every create of the second pass (there are at least the three for the
  output image, the build configuration and the deployment configuration) is answered
  already-exists, and the four derived resources exist: a builder image (cluster-local in
  the shared namespace, or declared in the Component's namespace), the output image, the
  build configuration and the deployment configuration.
\<close>

theorem Reconcile_idempotent:
  assumes fetch: "components s request = Some cr"
    and mapped: "images (BuildType (Spec cr)) = Some dockerImage"
  shows "\<exists>s1 t1 t2.
           Reconcile images s request = (s1, t1, None) \<and>
           Reconcile images s1 request = (s1, t2, None) \<and>
           3 \<le> length t2 \<and>
           (\<forall>c \<in> set t2. snd c = AlreadyExists) \<and>
           (imageStreams s1 (sharedNamespace, BuildType (Spec cr)) \<noteq> None \<or>
            imageStreams s1 (Namespace cr, BuildType (Spec cr)) \<noteq> None) \<and>
           imageStreams s1 (Namespace cr, Name cr) \<noteq> None \<and>
           buildConfigs s1 (Namespace cr, Name cr) \<noteq> None \<and>
           deploymentConfigs s1 (Namespace cr, Name cr) \<noteq> None"
proof -
  let ?bt = "BuildType (Spec cr)"
  let ?out = "newOutputImageStream cr"
  obtain dc where dc: "newDeploymentConfig cr (Some ?out) = Inr dc"
      and dc_key: "Namespace dc = Namespace cr" "Name dc = Name cr"
    using newDeploymentConfig_Some by blast
  show ?thesis
  proof (cases "imageStreams s (sharedNamespace, ?bt)")
    case (Some found)
    obtain bc where bc: "newBuildConfig cr (Some found) = Inr bc"
        and bc_key: "Namespace bc = Namespace cr" "Name bc = Name cr"
      using newBuildConfig_Some by blast
    define s1 where "s1 =
      s\<lparr>imageStreams := fst (Create (imageStreams s) ?out),
        buildConfigs := fst (Create (buildConfigs s) bc),
        deploymentConfigs := fst (Create (deploymentConfigs s) dc)\<rparr>"
    have first: "Reconcile images s request =
        (s1, [] @ [(CreateImageStream ?out, snd (Create (imageStreams s) ?out)),
              (CreateBuildConfig bc, snd (Create (buildConfigs s) bc)),
              (CreateDeploymentConfig dc, snd (Create (deploymentConfigs s) dc))], None)"
      unfolding s1_def
      by (rule Reconcile_resolved [OF fetch resolveBuilder_local [OF Some] bc dc])
    have fetch1: "components s1 request = Some cr"
      using fetch by (simp add: s1_def)
    have local1: "imageStreams s1 (sharedNamespace, ?bt) = Some found"
      using Some by (simp add: s1_def Create_keeps)
    obtain v1 where v1: "imageStreams s1 (Namespace cr, Name cr) = Some v1"
      using Create_stores [of "imageStreams s" ?out]
      by (auto simp: s1_def newOutputImageStream_key)
    obtain v2 where v2: "buildConfigs s1 (Namespace bc, Name bc) = Some v2"
      using Create_stores [of "buildConfigs s" bc] by (auto simp: s1_def)
    obtain v3 where v3: "deploymentConfigs s1 (Namespace dc, Name dc) = Some v3"
      using Create_stores [of "deploymentConfigs s" dc] by (auto simp: s1_def)
    have second: "Reconcile images s1 request =
        (s1, [] @ [(CreateImageStream ?out, AlreadyExists),
              (CreateBuildConfig bc, AlreadyExists),
              (CreateDeploymentConfig dc, AlreadyExists)], None)"
      by (rule Reconcile_again [OF fetch1 resolveBuilder_local [OF local1] bc dc v1 v2 v3])
    show ?thesis
      using first second local1 v1 v2 v3 by (simp add: bc_key dc_key)
  next
    case None
    obtain b where b: "newImageStreamFromDocker images cr = Some b"
        and b_key: "Namespace b = Namespace cr" "Name b = ?bt"
      using newImageStreamFromDocker_Some [where images = images and cr = cr, OF mapped] by blast
    obtain bc where bc: "newBuildConfig cr (Some b) = Inr bc"
        and bc_key: "Namespace bc = Namespace cr" "Name bc = Name cr"
      using newBuildConfig_Some by blast
    define s0 where "s0 = s\<lparr>imageStreams := fst (Create (imageStreams s) b)\<rparr>"
    define s1 where "s1 =
      s0\<lparr>imageStreams := fst (Create (imageStreams s0) ?out),
         buildConfigs := fst (Create (buildConfigs s0) bc),
         deploymentConfigs := fst (Create (deploymentConfigs s0) dc)\<rparr>"
    have first: "Reconcile images s request =
        (s1, [(CreateImageStream b, snd (Create (imageStreams s) b))] @
             [(CreateImageStream ?out, snd (Create (imageStreams s0) ?out)),
              (CreateBuildConfig bc, snd (Create (buildConfigs s0) bc)),
              (CreateDeploymentConfig dc, snd (Create (deploymentConfigs s0) dc))], None)"
      unfolding s1_def s0_def
      by (rule Reconcile_resolved [OF fetch resolveBuilder_declared [OF None b] bc dc])
    have fetch1: "components s1 request = Some cr"
      using fetch by (simp add: s1_def s0_def)
    obtain w where w0: "imageStreams s0 (Namespace cr, ?bt) = Some w"
        and w_new: "imageStreams s (Namespace cr, ?bt) = None \<longrightarrow> w = b"
      using Create_stores [of "imageStreams s" b] by (auto simp: s0_def b_key)
    have w1: "imageStreams s1 (Namespace cr, ?bt) = Some w"
      using w0 by (simp add: s1_def Create_keeps)
    obtain v1 where v1: "imageStreams s1 (Namespace cr, Name cr) = Some v1"
      using Create_stores [of "imageStreams s0" ?out]
      by (auto simp: s1_def newOutputImageStream_key)
    obtain v2 where v2: "buildConfigs s1 (Namespace bc, Name bc) = Some v2"
      using Create_stores [of "buildConfigs s0" bc] by (auto simp: s1_def)
    obtain v3 where v3: "deploymentConfigs s1 (Namespace dc, Name dc) = Some v3"
      using Create_stores [of "deploymentConfigs s0" dc] by (auto simp: s1_def)
    have "\<exists>t2. Reconcile images s1 request = (s1, t2, None) \<and> 3 \<le> length t2 \<and>
            (\<forall>c \<in> set t2. snd c = AlreadyExists)"
    proof (cases "imageStreams s1 (sharedNamespace, ?bt)")
      case local1: (Some found)
      have "Namespace cr = sharedNamespace"
      proof (rule ccontr)
        assume differs: "Namespace cr \<noteq> sharedNamespace"
        then have "imageStreams s0 (sharedNamespace, ?bt) = imageStreams s (sharedNamespace, ?bt)"
          by (simp add: s0_def Create_elsewhere b_key)
        moreover have "imageStreams s1 (sharedNamespace, ?bt) = imageStreams s0 (sharedNamespace, ?bt)"
          using differs by (simp add: s1_def Create_elsewhere newOutputImageStream_key)
        ultimately show False
          using None local1 by simp
      qed
      with None w_new w1 local1 have "found = b"
        by simp
      with local1 have builder1: "resolveBuilder images cr s1 = (s1, [], Some b)"
        by (simp add: resolveBuilder_local)
      have "Reconcile images s1 request =
          (s1, [] @ [(CreateImageStream ?out, AlreadyExists),
                (CreateBuildConfig bc, AlreadyExists),
                (CreateDeploymentConfig dc, AlreadyExists)], None)"
        by (rule Reconcile_again [OF fetch1 builder1 bc dc v1 v2 v3])
      then show ?thesis
        by simp
    next
      case no_local1: None
      have "Create (imageStreams s1) b = (imageStreams s1, AlreadyExists)"
        using w1 by (simp add: Create_taken b_key)
      with resolveBuilder_declared [OF no_local1 b]
      have builder1: "resolveBuilder images cr s1 = (s1, [(CreateImageStream b, AlreadyExists)], Some b)"
        by simp
      have "Reconcile images s1 request =
          (s1, [(CreateImageStream b, AlreadyExists)] @
               [(CreateImageStream ?out, AlreadyExists),
                (CreateBuildConfig bc, AlreadyExists),
                (CreateDeploymentConfig dc, AlreadyExists)], None)"
        by (rule Reconcile_again [OF fetch1 builder1 bc dc v1 v2 v3])
      then show ?thesis
        by simp
    qed
    then show ?thesis
      using first w1 v1 v2 v3 by (auto simp: bc_key dc_key)
  qed
qed

theorem Reconcile_idempotent_witness:
  "components (NewFakeClient (cp ''nodejs'' ''https://somegit.con/myrepo'') []) req =
     Some (cp ''nodejs'' ''https://somegit.con/myrepo'') \<and>
   buildTypeImages (BuildType (Spec (cp ''nodejs'' ''https://somegit.con/myrepo''))) =
     Some ''nodeshift/centos7-s2i-nodejs:10.x'' \<and>
   (\<exists>s1 t1 t2.
      Reconcile buildTypeImages (NewFakeClient (cp ''nodejs'' ''https://somegit.con/myrepo'') []) req =
        (s1, t1, None) \<and>
      Reconcile buildTypeImages s1 req = (s1, t2, None) \<and>
      3 \<le> length t2 \<and>
      list_all (\<lambda>c. snd c = AlreadyExists) t2 \<and>
      imageStreams s1 (''test-project'', ''MyComp'') \<noteq> None \<and>
      buildConfigs s1 (''test-project'', ''MyComp'') \<noteq> None \<and>
      deploymentConfigs s1 (''test-project'', ''MyComp'') \<noteq> None)"
proof -
  let ?C = "cp ''nodejs'' ''https://somegit.con/myrepo''"
  let ?S = "NewFakeClient ?C []"
  have fetch: "components ?S req = Some ?C"
    by (simp add: NewFakeClient_def cp_def req_def)
  have mapped: "buildTypeImages (BuildType (Spec ?C)) = Some ''nodeshift/centos7-s2i-nodejs:10.x''"
    by (simp add: cp_def buildTypeImages_def)
  have key: "Namespace ?C = ''test-project''" "Name ?C = ''MyComp''"
    by (simp_all add: cp_def)
  from Reconcile_idempotent [where images = buildTypeImages and s = ?S
      and request = req and cr = ?C, OF fetch mapped]
  have "\<exists>s1 t1 t2.
      Reconcile buildTypeImages ?S req = (s1, t1, None) \<and>
      Reconcile buildTypeImages s1 req = (s1, t2, None) \<and>
      3 \<le> length t2 \<and>
      list_all (\<lambda>c. snd c = AlreadyExists) t2 \<and>
      imageStreams s1 (''test-project'', ''MyComp'') \<noteq> None \<and>
      buildConfigs s1 (''test-project'', ''MyComp'') \<noteq> None \<and>
      deploymentConfigs s1 (''test-project'', ''MyComp'') \<noteq> None"
    unfolding key list_all_iff by blast
  with fetch mapped show ?thesis
    by blast
qed



end
